theory Spec2Isabelle
  imports Complex_Main "HOL-Library.Word" "HOL-Library.Log_Nat"
begin

section \<open>JavaScript numbers\<close>

text \<open>
  The aspect classifier divides two numbers and compares the quotient with the literals
  \<open>1.7\<close> and \<open>0.8\<close>. A JavaScript number is an IEEE 754 binary64 value; the ones that can
  arise from dividing two unsigned integers are \<open>NaN\<close>, \<open>+Infinity\<close> and the finite
  non-negative doubles, each of which is a rational.
\<close>

datatype number = NaN | Infinity | Finite rat

text \<open>Rounding to the nearest integer, ties to the even one.\<close>

definition round_half_even :: "rat \<Rightarrow> int" where
  "round_half_even x =
     (let f = \<lfloor>x\<rfloor>; r = x - of_int f
      in if r < 1 / 2 then f else if 1 / 2 < r then f + 1 else if even f then f else f + 1)"

text \<open>The exponent \<open>e\<close> with \<open>2\<^sup>e \<le> x < 2\<^sup>e\<^sup>+\<^sup>1\<close> of a positive rational.\<close>

definition binade :: "rat \<Rightarrow> int" where
  "binade x =
     (let (a, b) = quotient_of x; e = bitlen a - bitlen b
      in if of_int b * 2 powi e \<le> (of_int a :: rat) then e else e - 1)"

text \<open>
  The binary64 value of a non-negative real, rounded to nearest, ties to even: 53
  significant bits, the exponent no smaller than \<open>-1022\<close> (below that the spacing stays
  \<open>2\<^sup>-\<^sup>1\<^sup>0\<^sup>7\<^sup>4\<close>, the subnormal numbers), overflow to \<open>Infinity\<close>.
\<close>

definition round_double :: "rat \<Rightarrow> number" where
  "round_double x =
     (if x = 0 then Finite 0
      else let e = max (binade x) (- 1022);
               m = round_half_even (x * 2 powi (52 - e));
               v = of_int m * 2 powi (e - 52)
           in if 2 powi 1024 \<le> v then Infinity else Finite v)"

text \<open>
  \<open>a / b\<close> for two non-negative integers that are doubles themselves: \<open>0 / 0\<close> is
  \<open>NaN\<close>, a positive number over \<open>0\<close> is \<open>Infinity\<close>, otherwise the quotient correctly
  rounded.
\<close>

definition js_divide :: "nat \<Rightarrow> nat \<Rightarrow> number" where
  "js_divide a b =
     (if b = 0 then (if a = 0 then NaN else Infinity)
      else round_double (of_nat a / of_nat b))"

text \<open>\<open>a < b\<close>; \<open>a > b\<close> is \<open>b < a\<close>. A comparison with \<open>NaN\<close> is false.\<close>

fun js_less :: "number \<Rightarrow> number \<Rightarrow> bool" where
  "js_less (Finite a) (Finite b) = (a < b)"
| "js_less (Finite a) Infinity = True"
| "js_less _ _ = False"

section \<open>The aspect classifier (\<open>EventImage\<close>)\<close>

text \<open>
  \<open>naturalWidth\<close> and \<open>naturalHeight\<close> of an image element are \<open>unsigned long\<close>
  attributes: 32-bit unsigned integers. The component's state is the display class,
  initially \<open>aspect-[4/3]\<close>; \<open>handleImageLoad\<close> returns the class it sets.
\<close>

record image_element =
  naturalWidth :: "32 word"
  naturalHeight :: "32 word"

datatype aspect = Aspect_16_9 | Aspect_4_3 | Aspect_3_4

definition aspect_init :: aspect where
  "aspect_init = Aspect_4_3"

definition handleImageLoad :: "image_element \<Rightarrow> aspect" where
  "handleImageLoad img =
     (let ratio = js_divide (unat (naturalWidth img)) (unat (naturalHeight img))
      in if js_less (round_double (17 / 10)) ratio then Aspect_16_9
         else if js_less ratio (round_double (4 / 5)) then Aspect_3_4
         else Aspect_4_3)"

text \<open>The ratio \<open>r = w / h\<close> of the claims, as an exact rational (for \<open>h \<noteq> 0\<close>).\<close>

definition exact_ratio :: "image_element \<Rightarrow> rat" where
  "exact_ratio img = of_nat (unat (naturalWidth img)) / of_nat (unat (naturalHeight img))"

section \<open>Rows of the two backend tables\<close>

text \<open>
  Modelled from the spec: the row type of table \<open>events\<close>,
  \<open>Database['public']['Tables']['events']['Row']\<close>, whose declaration in
  \<open>types/supabase\<close> is missing. The columns are those of section 3 of the
  specification, which are the ones the components read and write. \<open>event_date\<close> is a
  timestamp column: the instant it denotes is an integer here (the wire format is an ISO
  string of that instant, and the backend orders by the instant). Nullable columns are
  options.
\<close>

datatype event_status = Draft | Published | Cancelled

record event =
  ev_id :: string
  title :: string
  description :: string
  event_date :: int
  location :: string
  status :: event_status
  image_url :: "string option"
  ticket_price :: "rat option"
  tickets_url :: "string option"
  festival :: "string option"

text \<open>The interface \<open>ContactMessage\<close>; \<open>created_at\<close> is a timestamp as well.\<close>

datatype message_status = New | In_progress | Completed

record contact_message =
  msg_id :: string
  name :: string
  email :: string
  message :: string
  created_at :: int
  admin_notes :: "string option"
  msg_status :: message_status

text \<open>
  The \<open>formData\<close> of the admin event form (a \<open>Partial<Event>\<close> that always holds these
  nine keys): strings as typed, the price a number or null, and the date either the empty
  string (\<open>None\<close>) or an instant.
\<close>

record event_form =
  form_title :: string
  form_description :: string
  form_event_date :: "int option"
  form_location :: string
  form_status :: event_status
  form_image_url :: string
  form_ticket_price :: "rat option"
  form_tickets_url :: string
  form_festival :: string

section \<open>The backend\<close>

text \<open>
  Modelled from the spec: the backend collaborator, a hosted database reached through the
  client of \<open>lib/supabase\<close>, which is missing. Section 6 of the specification describes
  it as row-level select, insert, update, delete, order and filter on the two tables. A table is the list of its rows. A request is one chain of the query builder as
  the components write it.
\<close>

record backend =
  events_table :: "event list"
  messages_table :: "contact_message list"

datatype request =
    Select_events "string option"
  | Update_event string event_form
  | Insert_event string event_form
  | Update_event_status string event_status
  | Delete_event string
  | Select_messages
  | Update_message_status string message_status
  | Update_message_notes string "string option"
  | Delete_message string

text \<open>
  \<open>Select_events tag\<close> is \<open>from('events').select('*')\<close>, with \<open>.eq('festival', tag)\<close>
  when a tag is given, and \<open>.order('event_date', { ascending: true })\<close>.
  \<open>Update_event id form\<close> is \<open>.update(formData).eq('id', id)\<close>; \<open>Insert_event id form\<close>
  is \<open>.insert([formData])\<close>, where \<open>id\<close> is the key the backend gives the new row (the
  client does not send it). \<open>Update_message_notes id notes\<close> is
  \<open>.update({ admin_notes: editingNotes[id] }).eq('id', id)\<close>; its payload is \<open>None\<close> when
  the buffer has no entry for \<open>id\<close> (the value is \<open>undefined\<close> and the key is left out of
  the request body).

  A request resolves to \<open>{ data, error }\<close>. Which requests fail is not for the client to
  decide: every request takes the error the backend or the network answers with, if any,
  and a failed request leaves the tables as they are.
\<close>

record 'a response =
  data :: "'a option"
  error :: "string option"

definition select_events :: "string option \<Rightarrow> string option \<Rightarrow> backend \<Rightarrow> event list response" where
  "select_events tag failure b =
     (case failure of
        Some e \<Rightarrow> \<lparr>data = None, error = Some e\<rparr>
      | None \<Rightarrow>
          \<lparr>data = Some (sort_key event_date
                    (case tag of
                       None \<Rightarrow> events_table b
                     | Some t \<Rightarrow> filter (\<lambda>e. festival e = Some t) (events_table b))),
           error = None\<rparr>)"

definition select_messages :: "string option \<Rightarrow> backend \<Rightarrow> contact_message list response" where
  "select_messages failure b =
     (case failure of
        Some e \<Rightarrow> \<lparr>data = None, error = Some e\<rparr>
      | None \<Rightarrow> \<lparr>data = Some (sort_key (\<lambda>m. - created_at m) (messages_table b)), error = None\<rparr>)"

text \<open>The columns an event form writes; the date is the one the form holds.\<close>

definition write_form :: "event_form \<Rightarrow> int \<Rightarrow> event \<Rightarrow> event" where
  "write_form f d e =
     e\<lparr>title := form_title f, description := form_description f, event_date := d,
       location := form_location f, status := form_status f,
       image_url := Some (form_image_url f), ticket_price := form_ticket_price f,
       tickets_url := Some (form_tickets_url f), festival := Some (form_festival f)\<rparr>"

definition blank_event :: "string \<Rightarrow> event" where
  "blank_event i =
     \<lparr>ev_id = i, title = [], description = [], event_date = 0, location = [], status = Draft,
      image_url = None, ticket_price = None, tickets_url = None, festival = None\<rparr>"

text \<open>
  The effect of a request that the backend accepts. An update writes the columns of its
  payload, and only those, to the rows the \<open>eq\<close> selects. The empty string is no timestamp:
  a form without a date is refused.
\<close>

fun mutate :: "request \<Rightarrow> backend \<Rightarrow> backend \<times> string option" where
  "mutate (Update_event i f) b =
     (case form_event_date f of
        None \<Rightarrow> (b, Some ''invalid input syntax for type timestamp'')
      | Some d \<Rightarrow>
          (b\<lparr>events_table := map (\<lambda>e. if ev_id e = i then write_form f d e else e) (events_table b)\<rparr>,
           None))"
| "mutate (Insert_event i f) b =
     (case form_event_date f of
        None \<Rightarrow> (b, Some ''invalid input syntax for type timestamp'')
      | Some d \<Rightarrow> (b\<lparr>events_table := events_table b @ [write_form f d (blank_event i)]\<rparr>, None))"
| "mutate (Update_event_status i st) b =
     (b\<lparr>events_table := map (\<lambda>e. if ev_id e = i then e\<lparr>status := st\<rparr> else e) (events_table b)\<rparr>,
      None)"
| "mutate (Delete_event i) b =
     (b\<lparr>events_table := filter (\<lambda>e. ev_id e \<noteq> i) (events_table b)\<rparr>, None)"
| "mutate (Update_message_status i st) b =
     (b\<lparr>messages_table :=
          map (\<lambda>m. if msg_id m = i then m\<lparr>msg_status := st\<rparr> else m) (messages_table b)\<rparr>,
      None)"
| "mutate (Update_message_notes i None) b = (b, None)"
| "mutate (Update_message_notes i (Some t)) b =
     (b\<lparr>messages_table :=
          map (\<lambda>m. if msg_id m = i then m\<lparr>admin_notes := Some t\<rparr> else m) (messages_table b)\<rparr>,
      None)"
| "mutate (Delete_message i) b =
     (b\<lparr>messages_table := filter (\<lambda>m. msg_id m \<noteq> i) (messages_table b)\<rparr>, None)"
| "mutate (Select_events t) b = (b, None)"
| "mutate Select_messages b = (b, None)"

definition send :: "request \<Rightarrow> string option \<Rightarrow> backend \<Rightarrow> backend \<times> string option" where
  "send rq failure b = (case failure of Some e \<Rightarrow> (b, Some e) | None \<Rightarrow> mutate rq b)"

text \<open>The \<open>formData\<close> of the membership form (here with \<open>m_\<close> where a name is taken).\<close>

record membership_form =
  m_name :: string
  m_email :: string
  phone :: string
  m_location :: string
  ageGroup :: string
  motivation :: string

text \<open>
  What a handler does besides changing state, in the order it does it. \<open>Store_action\<close> is
  the call \<open>submitMembershipForm(formData)\<close>, \<open>Navigate\<close> the assignment to
  \<open>window.location.href\<close>, \<open>Unhandled_rejection\<close> the end of an async handler whose
  \<open>await\<close> threw, and \<open>Report_validity\<close> the browser pointing at an invalid control
  instead of firing the submit event.
\<close>

datatype effect =
    Prevent_default
  | Confirm string
  | Request request
  | Toast_success string
  | Toast_error string
  | Console_error string
  | Store_action membership_form
  | Navigate string
  | Unhandled_rejection string
  | Report_validity

section \<open>The public programme page (\<open>MusikkfestPage\<close>)\<close>

text \<open>
  The component state is \<open>events\<close>, \<open>loading\<close> and \<open>selectedEvent\<close>. The response of a
  select is the pair \<open>{ data, error }\<close> the client library resolves to; either may be null.
\<close>

record musikkfest_state =
  events :: "event list"
  loading :: bool
  selectedEvent :: "event option"

definition musikkfest_init :: musikkfest_state where
  "musikkfest_init = \<lparr>events = [], loading = True, selectedEvent = None\<rparr>"

text \<open>
  \<open>fetchMusikkfestEvents\<close>, given the response of the select: \<open>setLoading(true)\<close>,
  \<open>if (!error && data) setEvents(data)\<close>, \<open>setLoading(false)\<close>.
\<close>

definition fetchMusikkfestEvents ::
  "event list response \<Rightarrow> musikkfest_state \<Rightarrow> musikkfest_state" where
  "fetchMusikkfestEvents r s =
     (let s1 = s\<lparr>loading := True\<rparr>;
          s2 = (case (error r, data r) of
                  (None, Some d) \<Rightarrow> s1\<lparr>events := d\<rparr>
                | _ \<Rightarrow> s1)
      in s2\<lparr>loading := False\<rparr>)"

text \<open>
  What the page shows below the heading: the loading line, the empty line, or the grid,
  one card per element of \<open>events.filter(event => event.title !== 'Grendedag')\<close>, in that
  order. A card is identified with the record it displays.
\<close>

datatype programme_view = Loading_View | Empty_View | Grid_View "event list"

definition grid_cards :: "event list \<Rightarrow> event list" where
  "grid_cards es = filter (\<lambda>e. title e \<noteq> ''Grendedag'') es"

definition musikkfest_view :: "musikkfest_state \<Rightarrow> programme_view" where
  "musikkfest_view s =
     (if loading s then Loading_View
      else if length (events s) = 0 then Empty_View
      else Grid_View (grid_cards (events s)))"

text \<open>The records shown as cards in a view (none outside the grid).\<close>

fun rendered :: "programme_view \<Rightarrow> event list" where
  "rendered (Grid_View cs) = cs"
| "rendered _ = []"

text \<open>
  The effect hook runs \<open>fetchMusikkfestEvents\<close> once, on the initial state, with the
  response to the select for the festival tag \<open>musikkfest\<close>.
\<close>

definition musikkfest_mount :: "string option \<Rightarrow> backend \<Rightarrow> musikkfest_state" where
  "musikkfest_mount failure b =
     fetchMusikkfestEvents (select_events (Some ''musikkfest'') failure b) musikkfest_init"

section \<open>The admin event manager (\<open>EventManager\<close>)\<close>

text \<open>
  The state of the component: \<open>events\<close> and \<open>loading\<close> (here \<open>em_events\<close>, \<open>em_loading\<close>),
  \<open>editingEvent\<close> and \<open>formData\<close>. A handler runs without interleaving with another
  one; it returns the effects in order, the backend where it writes to it, and the state.
\<close>

record manager_state =
  em_events :: "event list"
  em_loading :: bool
  editingEvent :: "event option"
  formData :: event_form

definition empty_form :: event_form where
  "empty_form =
     \<lparr>form_title = [], form_description = [], form_event_date = None, form_location = [],
      form_status = Draft, form_image_url = [], form_ticket_price = None,
      form_tickets_url = [], form_festival = []\<rparr>"

definition manager_init :: manager_state where
  "manager_init = \<lparr>em_events = [], em_loading = True, editingEvent = None, formData = empty_form\<rparr>"

definition fetchEvents :: "string option \<Rightarrow> backend \<Rightarrow> manager_state \<Rightarrow> effect list \<times> manager_state" where
  "fetchEvents failure b s =
     (let r = select_events None failure b
      in case error r of
           Some e \<Rightarrow>
             ([Request (Select_events None), Console_error ''Error fetching events:'',
               Toast_error ''Kunne ikke hente arrangementer''],
              s\<lparr>em_loading := False\<rparr>)
         | None \<Rightarrow>
             ([Request (Select_events None)],
              s\<lparr>em_events := (case data r of Some d \<Rightarrow> d | None \<Rightarrow> []), em_loading := False\<rparr>))"

text \<open>
  \<open>handleSubmit\<close> of the event form. \<open>new_id\<close> is the key the backend gives an inserted
  row, \<open>failure\<close> the error of the write and \<open>refetch_failure\<close> that of the select which
  follows a successful write.
\<close>

definition handleSubmit ::
  "string \<Rightarrow> string option \<Rightarrow> string option \<Rightarrow> backend \<Rightarrow> manager_state
     \<Rightarrow> effect list \<times> backend \<times> manager_state" where
  "handleSubmit new_id failure refetch_failure b s =
     (let rq = (case editingEvent s of
                  Some ev \<Rightarrow> Update_event (ev_id ev) (formData s)
                | None \<Rightarrow> Insert_event new_id (formData s));
          (b', err) = send rq failure b
      in case err of
           Some e \<Rightarrow>
             ([Prevent_default, Request rq, Console_error ''Error saving event:'',
               Toast_error ''Kunne ikke lagre arrangement''],
              b', s)
         | None \<Rightarrow>
             (let (fx, s') = fetchEvents refetch_failure b'
                               (s\<lparr>editingEvent := None, formData := empty_form\<rparr>)
              in ([Prevent_default, Request rq,
                   Toast_success (case editingEvent s of
                                    Some ev \<Rightarrow> ''Arrangement oppdatert''
                                  | None \<Rightarrow> ''Arrangement opprettet'')] @ fx,
                  b', s')))"

text \<open>The question of \<open>handleDelete\<close>; the letter after \<open>p\<close> is U+00E5, here in UTF-8.\<close>

definition confirm_delete_event :: string where
  "confirm_delete_event =
     ''Er du sikker p'' @ [CHR 0xC3, CHR 0xA5] @ '' at du vil slette dette arrangementet?''"

definition handleDelete ::
  "string \<Rightarrow> bool \<Rightarrow> string option \<Rightarrow> string option \<Rightarrow> backend \<Rightarrow> manager_state
     \<Rightarrow> effect list \<times> backend \<times> manager_state" where
  "handleDelete i confirmed failure refetch_failure b s =
     (if \<not> confirmed then ([Confirm confirm_delete_event], b, s)
      else
        (let (b', err) = send (Delete_event i) failure b
         in case err of
              Some e \<Rightarrow>
                ([Confirm confirm_delete_event, Request (Delete_event i),
                  Console_error ''Error deleting event:'',
                  Toast_error ''Kunne ikke slette arrangement''],
                 b', s)
            | None \<Rightarrow>
                (let (fx, s') = fetchEvents refetch_failure b' s
                 in ([Confirm confirm_delete_event, Request (Delete_event i),
                      Toast_success ''Arrangement slettet''] @ fx,
                     b', s'))))"

definition handleStatusChange ::
  "string \<Rightarrow> event_status \<Rightarrow> string option \<Rightarrow> backend \<Rightarrow> manager_state
     \<Rightarrow> effect list \<times> backend \<times> manager_state" where
  "handleStatusChange i newStatus failure b s =
     (let (b', err) = send (Update_event_status i newStatus) failure b
      in case err of
           Some e \<Rightarrow>
             ([Request (Update_event_status i newStatus),
               Console_error ''Error updating event status:'',
               Toast_error ''Kunne ikke oppdatere status''],
              b', s)
         | None \<Rightarrow>
             ([Request (Update_event_status i newStatus), Toast_success ''Status oppdatert''],
              b',
              s\<lparr>em_events :=
                  map (\<lambda>ev. if ev_id ev = i then ev\<lparr>status := newStatus\<rparr> else ev) (em_events s)\<rparr>))"

text \<open>\<open>x || ''\<close> for a nullable string.\<close>

definition or_empty :: "string option \<Rightarrow> string" where
  "or_empty x = (case x of None \<Rightarrow> [] | Some t \<Rightarrow> t)"





section \<open>The admin contact-message manager (\<open>ContactMessages\<close>)\<close>

text \<open>
  The state: \<open>messages\<close>, \<open>loading\<close> (here \<open>cm_loading\<close>) and the notes buffer
  \<open>editingNotes\<close>, an object indexed by message id.
\<close>

record messages_state =
  messages :: "contact_message list"
  cm_loading :: bool
  editingNotes :: "string \<rightharpoonup> string"

definition messages_init :: messages_state where
  "messages_init = \<lparr>messages = [], cm_loading = True, editingNotes = Map.empty\<rparr>"

text \<open>
  The object \<open>notesState\<close> that \<open>fetchMessages\<close> builds with \<open>forEach\<close>: one assignment
  \<open>notesState[message.id] = message.admin_notes || ''\<close> per row, in order.
\<close>

definition notesState :: "contact_message list \<Rightarrow> (string \<rightharpoonup> string)" where
  "notesState d = fold (\<lambda>m ns. ns(msg_id m \<mapsto> or_empty (admin_notes m))) d Map.empty"

definition fetchMessages ::
  "string option \<Rightarrow> backend \<Rightarrow> messages_state \<Rightarrow> effect list \<times> messages_state" where
  "fetchMessages failure b s =
     (let r = select_messages failure b
      in case error r of
           Some e \<Rightarrow>
             ([Request Select_messages, Console_error ''Error fetching messages:'',
               Toast_error ''Could not fetch messages''],
              s\<lparr>cm_loading := False\<rparr>)
         | None \<Rightarrow>
             ([Request Select_messages],
              s\<lparr>editingNotes := (case data r of Some d \<Rightarrow> notesState d | None \<Rightarrow> Map.empty),
                messages := (case data r of Some d \<Rightarrow> d | None \<Rightarrow> []),
                cm_loading := False\<rparr>))"

definition updateStatus ::
  "string \<Rightarrow> message_status \<Rightarrow> string option \<Rightarrow> string option \<Rightarrow> backend \<Rightarrow> messages_state
     \<Rightarrow> effect list \<times> backend \<times> messages_state" where
  "updateStatus i st failure refetch_failure b s =
     (let (b', err) = send (Update_message_status i st) failure b
      in case err of
           Some e \<Rightarrow>
             ([Request (Update_message_status i st), Console_error ''Error updating status:'',
               Toast_error ''Could not update status''],
              b', s)
         | None \<Rightarrow>
             (let (fx, s') = fetchMessages refetch_failure b' s
              in ([Request (Update_message_status i st), Toast_success ''Status updated''] @ fx,
                  b', s')))"

definition updateAdminNotes ::
  "string \<Rightarrow> string option \<Rightarrow> string option \<Rightarrow> backend \<Rightarrow> messages_state
     \<Rightarrow> effect list \<times> backend \<times> messages_state" where
  "updateAdminNotes i failure refetch_failure b s =
     (let rq = Update_message_notes i (editingNotes s i);
          (b', err) = send rq failure b
      in case err of
           Some e \<Rightarrow>
             ([Request rq, Console_error ''Error updating notes:'',
               Toast_error ''Could not update notes''],
              b', s)
         | None \<Rightarrow>
             (let (fx, s') = fetchMessages refetch_failure b' s
              in ([Request rq, Toast_success ''Notes updated''] @ fx, b', s')))"

definition confirm_delete_message :: string where
  "confirm_delete_message =
     ''Er du sikker p'' @ [CHR 0xC3, CHR 0xA5] @ '' at du vil slette denne meldingen?''"

definition deleteMessage ::
  "string \<Rightarrow> bool \<Rightarrow> string option \<Rightarrow> string option \<Rightarrow> backend \<Rightarrow> messages_state
     \<Rightarrow> effect list \<times> backend \<times> messages_state" where
  "deleteMessage i confirmed failure refetch_failure b s =
     (if \<not> confirmed then ([Confirm confirm_delete_message], b, s)
      else
        (let (b', err) = send (Delete_message i) failure b
         in case err of
              Some e \<Rightarrow>
                ([Confirm confirm_delete_message, Request (Delete_message i),
                  Console_error ''Error deleting message:'',
                  Toast_error ''Kunne ikke slette melding''],
                 b', s)
            | None \<Rightarrow>
                (let (fx, s') = fetchMessages refetch_failure b' s
                 in ([Confirm confirm_delete_message, Request (Delete_message i),
                      Toast_success ''Melding slettet''] @ fx,
                     b', s'))))"

text \<open>Typing into the notes field of message \<open>i\<close>: the \<open>onChange\<close> of the textarea.\<close>

definition editNotes :: "string \<Rightarrow> string \<Rightarrow> messages_state \<Rightarrow> messages_state" where
  "editNotes i t s = s\<lparr>editingNotes := (editingNotes s)(i \<mapsto> t)\<rparr>"

section \<open>The membership form (\<open>MembershipForm\<close>)\<close>

text \<open>
  The state: \<open>formData\<close> (here \<open>mf_formData\<close>), \<open>submitted\<close>, which shows the banner,
  and \<open>submitting\<close>, which disables the button; \<open>location_href\<close> is the address the
  window is at.
\<close>

record membership_state =
  mf_formData :: membership_form
  submitted :: bool
  submitting :: bool
  location_href :: string

definition empty_membership_form :: membership_form where
  "empty_membership_form =
     \<lparr>m_name = [], m_email = [], phone = [], m_location = [], ageGroup = [], motivation = []\<rparr>"

definition membership_init :: "string \<Rightarrow> membership_state" where
  "membership_init href =
     \<lparr>mf_formData = empty_membership_form, submitted = False, submitting = False,
      location_href = href\<rparr>"

definition checkout_url :: string where
  "checkout_url =
     ''https://event.checkin.no/139486/medlemskap-2025?fbclid=IwY2xjawLXSCRleHRuA2FlbQIxMABicmlkETFEbUFTOWNCZm9xSG9BOTlFAR5ngijSdRJ2Kfi2XKvhspY8HmCkfC0VMFcmgS2L1bf0TxfXalIxIw6o4tGhkw_aem_RvErzvAQ4nDpV1uu_VUUAA''"

text \<open>
  The store action \<open>submitMembershipForm\<close> comes from \<open>stores/formStore\<close>, which is
  missing: it is a parameter, a function from the form data to the way the promise it
  returns settles. \<open>await\<close> continues with the value of a fulfilled promise and
  throws the reason of a rejected one; \<open>handleSubmit\<close> has no \<open>try\<close>, so a throw ends it.
\<close>

datatype 'r settled = Fulfilled 'r | Rejected string

definition handleSubmit_membership ::
  "(membership_form \<Rightarrow> 'r settled) \<Rightarrow> membership_state \<Rightarrow> effect list \<times> membership_state" where
  "handleSubmit_membership submitMembershipForm s =
     (let s1 = s\<lparr>submitting := True\<rparr>
      in case submitMembershipForm (mf_formData s) of
           Rejected e \<Rightarrow>
             ([Prevent_default, Store_action (mf_formData s), Unhandled_rejection e], s1)
         | Fulfilled r \<Rightarrow>
             ([Prevent_default, Store_action (mf_formData s), Navigate checkout_url],
              s1\<lparr>mf_formData := empty_membership_form, submitted := True,
                 location_href := checkout_url\<rparr>))"

text \<open>
  The controls of the form as the component renders them, in document order, each bound
  to its field of \<open>formData\<close>.
\<close>

datatype control_type = Text | Email | Tel | Select | Textarea

record control =
  control_type :: control_type
  required :: bool
  control_value :: string

definition form_controls :: "membership_form \<Rightarrow> control list" where
  "form_controls fd =
     [\<lparr>control_type = Text, required = True, control_value = m_name fd\<rparr>,
      \<lparr>control_type = Email, required = True, control_value = m_email fd\<rparr>,
      \<lparr>control_type = Tel, required = False, control_value = phone fd\<rparr>,
      \<lparr>control_type = Text, required = True, control_value = m_location fd\<rparr>,
      \<lparr>control_type = Select, required = True, control_value = ageGroup fd\<rparr>,
      \<lparr>control_type = Textarea, required = False, control_value = motivation fd\<rparr>]"

text \<open>
  The browser's constraint validation, which decides whether a click on the submit button
  fires the submit event. A valid e-mail address is, in the HTML standard, one or more
  characters of \<open>atext\<close> or dots, an \<open>@\<close>, and one or more labels separated by dots; a
  label is 1 to 63 letters, digits or hyphens and neither starts nor ends with a hyphen.
\<close>

definition alnum :: string where
  "alnum = ''abcdefghijklmnopqrstuvwxyzABCDEFGHIJKLMNOPQRSTUVWXYZ0123456789''"

definition atext_or_dot :: string where
  "atext_or_dot = alnum @ ''.!#$%&*+/=?^_{|}~-'' @ [CHR 0x27, CHR 0x60]"

fun split_at :: "char \<Rightarrow> string \<Rightarrow> string list" where
  "split_at c [] = [[]]"
| "split_at c (x # xs) =
     (if x = c then [] # split_at c xs
      else (case split_at c xs of [] \<Rightarrow> [[x]] | l # ls \<Rightarrow> (x # l) # ls))"

definition valid_label :: "string \<Rightarrow> bool" where
  "valid_label l =
     (l \<noteq> [] \<and> length l \<le> 63 \<and> hd l \<in> set alnum \<and> last l \<in> set alnum
      \<and> list_all (\<lambda>c. c \<in> set alnum \<or> c = CHR ''-'') l)"

definition valid_email :: "string \<Rightarrow> bool" where
  "valid_email v =
     (let local = takeWhile (\<lambda>c. c \<noteq> CHR ''@'') v;
          rest = dropWhile (\<lambda>c. c \<noteq> CHR ''@'') v
      in local \<noteq> [] \<and> list_all (\<lambda>c. c \<in> set atext_or_dot) local
         \<and> rest \<noteq> [] \<and> list_all valid_label (split_at (CHR ''.'') (tl rest)))"

definition valueMissing :: "control \<Rightarrow> bool" where
  "valueMissing c = (required c \<and> control_value c = [])"

definition typeMismatch :: "control \<Rightarrow> bool" where
  "typeMismatch c =
     (control_type c = Email \<and> control_value c \<noteq> [] \<and> \<not> valid_email (control_value c))"

definition checkValidity :: "control list \<Rightarrow> bool" where
  "checkValidity cs = list_all (\<lambda>c. \<not> valueMissing c \<and> \<not> typeMismatch c) cs"

text \<open>
  A click on the submit button: nothing when the button is disabled (\<open>submitting\<close>), a
  validity report and no submit event when a control is invalid, else \<open>handleSubmit\<close>.
\<close>

definition submit_click ::
  "(membership_form \<Rightarrow> 'r settled) \<Rightarrow> membership_state \<Rightarrow> effect list \<times> membership_state" where
  "submit_click submitMembershipForm s =
     (if submitting s then ([], s)
      else if \<not> checkValidity (form_controls (mf_formData s)) then ([Report_validity], s)
      else handleSubmit_membership submitMembershipForm s)"

section \<open>Properties of the number model\<close>

lemma round_half_even_cases:
  "round_half_even x = \<lfloor>x\<rfloor> \<or> round_half_even x = \<lfloor>x\<rfloor> + 1"
  by (simp add: round_half_even_def Let_def)

lemma round_half_even_ge: "of_int n \<le> x \<Longrightarrow> n \<le> round_half_even x"
proof -
  assume "of_int n \<le> x"
  then have "n \<le> \<lfloor>x\<rfloor>" by (simp add: le_floor_iff)
  with round_half_even_cases [of x] show ?thesis by auto
qed

lemma round_half_even_le: "x < of_int n + 1 / 2 \<Longrightarrow> round_half_even x \<le> n"
proof -
  assume a: "x < of_int n + 1 / 2"
  then have "x < of_int (n + 1)" by simp
  then have "\<lfloor>x\<rfloor> < n + 1" by (subst floor_less_iff)
  then have f: "\<lfloor>x\<rfloor> \<le> n" by simp
  show ?thesis
  proof (cases "\<lfloor>x\<rfloor> = n")
    case True
    with a have "x - of_int \<lfloor>x\<rfloor> < 1 / 2" by simp
    then show ?thesis using True by (simp add: round_half_even_def Let_def)
  next
    case False
    with f have "\<lfloor>x\<rfloor> + 1 \<le> n" by simp
    with round_half_even_cases [of x] f show ?thesis by auto
  qed
qed

lemma round_half_even_ge_half: "of_int n - 1 / 2 < x \<Longrightarrow> n \<le> round_half_even x"
proof -
  assume a: "of_int n - 1 / 2 < x"
  then have "of_int (n - 1) \<le> x" by simp
  then have f: "n - 1 \<le> \<lfloor>x\<rfloor>" by (subst le_floor_iff)
  show ?thesis
  proof (cases "\<lfloor>x\<rfloor> = n - 1")
    case True
    with a have "1 / 2 < x - of_int \<lfloor>x\<rfloor>" by simp
    then show ?thesis using True by (simp add: round_half_even_def Let_def)
  next
    case False
    with f have "n \<le> \<lfloor>x\<rfloor>" by simp
    with round_half_even_cases [of x] show ?thesis by auto
  qed
qed

lemma bitlen_powi_bounds:
  assumes "0 < a"
  shows "(2::rat) powi (bitlen a - 1) \<le> of_int a" and "of_int a < (2::rat) powi (bitlen a)"
proof -
  have b: "2 ^ nat (bitlen a - 1) \<le> a" "a < 2 ^ nat (bitlen a)"
    using bitlen_bounds [OF assms] by simp_all
  have p: "1 \<le> bitlen a" using assms by (simp add: bitlen_alt_def)
  have "(of_int (2 ^ nat (bitlen a - 1)) :: rat) \<le> of_int a"
    using b(1) by (simp only: of_int_le_iff)
  then show "(2::rat) powi (bitlen a - 1) \<le> of_int a"
    using p by (simp add: power_int_def)
  have "(of_int a :: rat) < of_int (2 ^ nat (bitlen a))"
    using b(2) by (simp only: of_int_less_iff)
  then show "of_int a < (2::rat) powi (bitlen a)"
    using p by (simp add: power_int_def)
qed

lemma powi_split: "(2::rat) powi (a + b) = 2 powi a * 2 powi b"
  by (rule power_int_add) simp

text \<open>\<open>binade\<close> computes the exponent it is meant to.\<close>

lemma binade_bounds:
  assumes "0 < x"
  shows "2 powi (binade x) \<le> x \<and> x < 2 powi (binade x + 1)"
proof -
  obtain a b where q: "quotient_of x = (a, b)" by (cases "quotient_of x")
  have b: "0 < b" using q by (rule quotient_of_denom_pos)
  have x: "x = of_int a / of_int b" using q by (rule quotient_of_div)
  have a: "0 < a" using assms b x by (simp add: zero_less_divide_iff)
  define e where "e = bitlen a - bitlen b"
  define B :: rat where "B = of_int b"
  define A :: rat where "A = of_int a"
  have B: "0 < B" using b by (simp add: B_def)
  have xAB: "x = A / B" using x by (simp add: A_def B_def)
  have lo: "B * 2 powi (e - 1) \<le> A"
  proof -
    have "B * 2 powi (e - 1) \<le> 2 powi bitlen b * 2 powi (e - 1)"
      using bitlen_powi_bounds(2) [OF b] by (simp add: B_def)
    also have "\<dots> = 2 powi (bitlen a - 1)"
      by (simp add: e_def flip: power_int_add)
    also have "\<dots> \<le> A" using bitlen_powi_bounds(1) [OF a] by (simp add: A_def)
    finally show ?thesis .
  qed
  have hi: "A < B * 2 powi (e + 1)"
  proof -
    have "A < 2 powi bitlen a" using bitlen_powi_bounds(2) [OF a] by (simp add: A_def)
    also have "\<dots> = 2 powi (bitlen b - 1) * 2 powi (e + 1)"
      by (simp add: e_def flip: power_int_add)
    also have "\<dots> \<le> B * 2 powi (e + 1)"
      using bitlen_powi_bounds(1) [OF b] by (simp add: B_def)
    finally show ?thesis .
  qed
  show ?thesis
  proof (cases "B * 2 powi e \<le> A")
    case True
    then have "binade x = e" by (simp add: binade_def q e_def A_def B_def)
    moreover have "2 powi e \<le> x"
      using True B by (simp add: xAB pos_le_divide_eq mult.commute)
    moreover have "x < 2 powi (e + 1)"
      using hi B by (simp add: xAB pos_divide_less_eq mult.commute)
    ultimately show ?thesis by simp
  next
    case False
    then have "binade x = e - 1" by (simp add: binade_def q e_def A_def B_def)
    moreover have "2 powi (e - 1) \<le> x"
      using lo B by (simp add: xAB pos_le_divide_eq mult.commute)
    moreover have "x < 2 powi e"
      using False B by (simp add: xAB pos_divide_less_eq mult.commute)
    ultimately show ?thesis by simp
  qed
qed

text \<open>
  In the normal range without overflow the rounded value is the significand, rounded to
  an integer of 53 bits, scaled back; it stays within the binade of the argument.
\<close>

lemma round_double_normal:
  assumes x: "0 < x" and lo: "- 1022 \<le> binade x" and hi: "binade x < 1023"
  defines "v \<equiv> of_int (round_half_even (x * 2 powi (52 - binade x))) * 2 powi (binade x - 52)"
  shows "round_double x = Finite v" and "2 powi binade x \<le> v" and "v \<le> 2 powi (binade x + 1)"
proof -
  define e where "e = binade x"
  define m where "m = round_half_even (x * 2 powi (52 - e))"
  define P :: rat where "P = 2 powi (e - 52)"
  define Q :: rat where "Q = 2 powi (52 - e)"
  have v: "v = of_int m * P" by (simp add: v_def m_def P_def e_def)
  have P: "0 < P" and Q: "0 < Q" by (simp_all add: P_def Q_def)
  have b: "2 powi e \<le> x" "x < 2 powi (e + 1)"
    using binade_bounds [OF x] by (simp_all add: e_def)
  have E0: "2 powi e * Q = 4503599627370496"
    using powi_split [of e "52 - e"] by (simp add: Q_def)
  have E1: "2 powi (e + 1) * Q = 9007199254740992"
    using powi_split [of "e + 1" "52 - e"] by (simp add: Q_def)
  have E2: "2 powi e = 4503599627370496 * P"
    using powi_split [of 52 "e - 52"] by (simp add: P_def)
  have E3: "2 powi (e + 1) = 9007199254740992 * P"
    using powi_split [of 53 "e - 52"] by (simp add: P_def add.commute)
  have "2 powi e * Q \<le> x * Q"
    using b(1) Q by (simp only: mult_le_cancel_right_pos)
  then have "of_int 4503599627370496 \<le> x * Q" by (simp add: E0)
  then have "4503599627370496 \<le> m"
    unfolding m_def Q_def [symmetric] by (rule round_half_even_ge)
  then have "(of_int 4503599627370496 :: rat) \<le> of_int m" by (simp only: of_int_le_iff)
  then have "4503599627370496 * P \<le> of_int m * P"
    using P by (simp only: mult_le_cancel_right_pos of_int_numeral)
  then have v_lo: "2 powi e \<le> v" by (simp only: E2 v)
  have "x * Q < 2 powi (e + 1) * Q"
    using b(2) Q by (simp only: mult_less_cancel_right_pos)
  then have "x * Q < of_int 9007199254740992 + 1 / 2" by (simp add: E1)
  then have "m \<le> 9007199254740992"
    unfolding m_def Q_def [symmetric] by (rule round_half_even_le)
  then have "(of_int m :: rat) \<le> of_int 9007199254740992" by (simp only: of_int_le_iff)
  then have "of_int m * P \<le> 9007199254740992 * P"
    using P by (simp only: mult_le_cancel_right_pos of_int_numeral)
  then have v_hi: "v \<le> 2 powi (e + 1)" by (simp only: E3 v)
  have "(2::rat) powi (e + 1) \<le> 2 powi 1023"
    using hi by (intro power_int_increasing) (simp_all add: e_def)
  also have "\<dots> < (2::rat) powi 1024" by (intro power_int_strict_increasing) simp_all
  finally have "v < 2 powi 1024" using v_hi by simp
  then have nov: "\<not> 2 powi 1024 \<le> v" by simp
  have mx: "max (binade x) (- 1022) = binade x" using lo by simp
  have x0: "x \<noteq> 0" using x by simp
  show "round_double x = Finite v"
    unfolding round_double_def Let_def mx v_def [symmetric]
    by (simp only: x0 nov if_False)
  show "2 powi binade x \<le> v" using v_lo by (simp only: e_def)
  show "v \<le> 2 powi (binade x + 1)" using v_hi by (simp only: e_def)
qed

text \<open>The two literals of the classifier, as the doubles they denote.\<close>

lemma literal_1_7: "round_double (17 / 10) = Finite (7656119366529843 / 4503599627370496)"
  by code_simp

lemma literal_0_8: "round_double (4 / 5) = Finite (3602879701896397 / 4503599627370496)"
  by code_simp

lemma round_double_0: "round_double 0 = Finite 0"
  by (simp add: round_double_def)

text \<open>The quotient of two positive 32-bit integers lies well inside the normal range.\<close>

lemma quotient_binade:
  fixes w h :: nat
  assumes w: "0 < w" "w < 2 ^ 32" and h: "0 < h" "h < 2 ^ 32"
  defines "x \<equiv> (of_nat w / of_nat h :: rat)"
  shows "0 < x" and "- 32 \<le> binade x" and "binade x < 32"
proof -
  define W :: rat where "W = of_nat w"
  define H :: rat where "H = of_nat h"
  have W: "1 \<le> W" "W < 4294967296"
    using w by (simp_all add: W_def flip: of_nat_less_numeral_iff)
  have H: "1 \<le> H" "H < 4294967296"
    using h by (simp_all add: H_def flip: of_nat_less_numeral_iff)
  have x: "x = W / H" by (simp add: x_def W_def H_def)
  show x0: "0 < x" using W H by (simp add: x)
  have xhi: "x < 2 powi 32"
  proof -
    have "W / H \<le> W" using W H by (simp add: pos_divide_le_eq)
    then show ?thesis using W by (simp add: x)
  qed
  have xlo: "2 powi (- 32) < x"
  proof -
    have "H < 4294967296 * W" using W H by linarith
    then have "1 / 4294967296 < W / H" using H by (simp add: pos_less_divide_eq)
    then show ?thesis by (simp add: x power_int_minus)
  qed
  note b = binade_bounds [OF x0]
  show "binade x < 32"
  proof (rule ccontr)
    assume "\<not> binade x < 32"
    then have "(2::rat) powi 32 \<le> 2 powi binade x" by (intro power_int_increasing) simp_all
    with b xhi show False by linarith
  qed
  show "- 32 \<le> binade x"
  proof (rule ccontr)
    assume "\<not> - 32 \<le> binade x"
    then have "(2::rat) powi (binade x + 1) \<le> 2 powi (- 32)"
      by (intro power_int_increasing) simp_all
    with b xlo show False by linarith
  qed
qed

section \<open>Properties of the aspect classifier\<close>

text \<open>
  The comparison of the rounded quotient with the rounded literal \<open>1.7\<close> decides the
  comparison of the exact quotient with \<open>17/10\<close>, and likewise for \<open>0.8\<close>: two quotients
  of 32-bit integers on different sides of a threshold are much further apart than two
  neighbouring doubles.
\<close>

lemma wide_iff:
  fixes w h :: nat
  assumes w: "0 < w" "w < 2 ^ 32" and h: "0 < h" "h < 2 ^ 32"
  shows "js_less (round_double (17 / 10)) (round_double (of_nat w / of_nat h))
           \<longleftrightarrow> 17 / 10 < (of_nat w / of_nat h :: rat)"
proof -
  define x :: rat where "x = of_nat w / of_nat h"
  define e where "e = binade x"
  define v where "v = of_int (round_half_even (x * 2 powi (52 - e))) * (2::rat) powi (e - 52)"
  have H: "(0::rat) < of_nat h" "(of_nat h :: rat) < 4294967296"
    using h by (simp_all flip: of_nat_less_numeral_iff)
  have q: "0 < x" "- 32 \<le> e" "e < 32"
    using quotient_binade [OF w h] by (simp_all add: x_def e_def)
  have r: "round_double x = Finite v" "2 powi e \<le> v" "v \<le> 2 powi (e + 1)"
    using round_double_normal [of x] q by (simp_all add: v_def e_def)
  have b: "2 powi e \<le> x" "x < 2 powi (e + 1)"
    using binade_bounds [OF q(1)] by (simp_all add: e_def)
  have cmp: "17 / 10 < x \<longleftrightarrow> 17 * h < 10 * w"
  proof -
    have "17 / 10 < x \<longleftrightarrow> 17 * of_nat h < 10 * (of_nat w :: rat)"
      using H by (simp add: x_def pos_less_divide_eq mult.commute)
    also have "\<dots> \<longleftrightarrow> (of_nat (17 * h) :: rat) < of_nat (10 * w)" by simp
    also have "\<dots> \<longleftrightarrow> 17 * h < 10 * w" by (simp only: of_nat_less_iff)
    finally show ?thesis .
  qed
  have "7656119366529843 / 4503599627370496 < v \<longleftrightarrow> 17 / 10 < x"
  proof -
    consider "1 \<le> e" | "e \<le> - 1" | "e = 0" by linarith
    then show ?thesis
    proof cases
      case 1
      then have "(2::rat) powi 1 \<le> 2 powi e" by (intro power_int_increasing) simp_all
      with r(2) b(1) show ?thesis by simp
    next
      case 2
      then have "(2::rat) powi (e + 1) \<le> 2 powi 0" by (intro power_int_increasing) simp_all
      with r(3) b(2) show ?thesis by simp
    next
      case 3
      define y where "y = x * 4503599627370496"
      have p: "(2::rat) powi 52 = 4503599627370496" "(2::rat) powi (- 52) = 1 / 4503599627370496"
        by (simp_all add: power_int_minus inverse_eq_divide)
      have v': "v = of_int (round_half_even y) / 4503599627370496"
        unfolding v_def 3 y_def by (simp add: p)
      show ?thesis
      proof (cases "17 / 10 < x")
        case True
        then have "17 * h < 10 * w" using cmp by simp
        then have "17 * h + 1 \<le> 10 * w" by simp
        then have "(of_nat (17 * h + 1) :: rat) \<le> of_nat (10 * w)" by (simp only: of_nat_le_iff)
        then have "17 * of_nat h + 1 \<le> 10 * (of_nat w :: rat)" by simp
        then have "7656119366529844 * (of_nat h :: rat) \<le> of_nat w * 4503599627370496"
          using H by linarith
        then have "of_int 7656119366529844 \<le> y"
          using H by (simp add: y_def x_def pos_le_divide_eq)
        then have "7656119366529844 \<le> round_half_even y" by (rule round_half_even_ge)
        then have "(of_int 7656119366529844 :: rat) \<le> of_int (round_half_even y)"
          by (simp only: of_int_le_iff)
        then show ?thesis using True by (simp add: v')
      next
        case False
        then have "y < of_int 7656119366529843 + 1 / 2" by (simp add: y_def)
        then have "round_half_even y \<le> 7656119366529843" by (rule round_half_even_le)
        then have "(of_int (round_half_even y) :: rat) \<le> of_int 7656119366529843"
          by (simp only: of_int_le_iff)
        then show ?thesis using False by (simp add: v')
      qed
    qed
  qed
  then show ?thesis
    using r(1) by (simp add: literal_1_7 x_def)
qed

lemma tall_iff:
  fixes w h :: nat
  assumes w: "0 < w" "w < 2 ^ 32" and h: "0 < h" "h < 2 ^ 32"
  shows "js_less (round_double (of_nat w / of_nat h)) (round_double (4 / 5))
           \<longleftrightarrow> (of_nat w / of_nat h :: rat) < 4 / 5"
proof -
  define x :: rat where "x = of_nat w / of_nat h"
  define e where "e = binade x"
  define v where "v = of_int (round_half_even (x * 2 powi (52 - e))) * (2::rat) powi (e - 52)"
  have H: "(0::rat) < of_nat h" "(of_nat h :: rat) < 4294967296"
    using h by (simp_all flip: of_nat_less_numeral_iff)
  have q: "0 < x" "- 32 \<le> e" "e < 32"
    using quotient_binade [OF w h] by (simp_all add: x_def e_def)
  have r: "round_double x = Finite v" "2 powi e \<le> v" "v \<le> 2 powi (e + 1)"
    using round_double_normal [of x] q by (simp_all add: v_def e_def)
  have b: "2 powi e \<le> x" "x < 2 powi (e + 1)"
    using binade_bounds [OF q(1)] by (simp_all add: e_def)
  have cmp: "x < 4 / 5 \<longleftrightarrow> 5 * w < 4 * h"
  proof -
    have "x < 4 / 5 \<longleftrightarrow> 5 * of_nat w < 4 * (of_nat h :: rat)"
      using H by (simp add: x_def pos_divide_less_eq mult.commute)
    also have "\<dots> \<longleftrightarrow> (of_nat (5 * w) :: rat) < of_nat (4 * h)" by simp
    also have "\<dots> \<longleftrightarrow> 5 * w < 4 * h" by (simp only: of_nat_less_iff)
    finally show ?thesis .
  qed
  have "v < 3602879701896397 / 4503599627370496 \<longleftrightarrow> x < 4 / 5"
  proof -
    consider "0 \<le> e" | "e \<le> - 2" | "e = - 1" by linarith
    then show ?thesis
    proof cases
      case 1
      then have "(2::rat) powi 0 \<le> 2 powi e" by (intro power_int_increasing) simp_all
      with r(2) b(1) show ?thesis by simp
    next
      case 2
      then have "(2::rat) powi (e + 1) \<le> 2 powi (- 1)" by (intro power_int_increasing) simp_all
      with r(3) b(2) show ?thesis by (simp add: power_int_minus)
    next
      case 3
      define y where "y = x * 9007199254740992"
      have p: "(2::rat) powi 53 = 9007199254740992" "(2::rat) powi (- 53) = 1 / 9007199254740992"
        by (simp_all add: power_int_minus inverse_eq_divide)
      have v': "v = of_int (round_half_even y) / 9007199254740992"
        unfolding v_def 3 y_def by (simp add: p)
      show ?thesis
      proof (cases "x < 4 / 5")
        case True
        then have "5 * w < 4 * h" using cmp by simp
        then have "5 * w + 1 \<le> 4 * h" by simp
        then have "(of_nat (5 * w + 1) :: rat) \<le> of_nat (4 * h)" by (simp only: of_nat_le_iff)
        then have "5 * of_nat w + 1 \<le> 4 * (of_nat h :: rat)" by simp
        then have "of_nat w * 9007199254740992 < 14411518807585587 / 2 * (of_nat h :: rat)"
          using H by linarith
        then have "y < of_int 7205759403792793 + 1 / 2"
          using H by (simp add: y_def x_def pos_divide_less_eq)
        then have "round_half_even y \<le> 7205759403792793" by (rule round_half_even_le)
        then have "(of_int (round_half_even y) :: rat) \<le> of_int 7205759403792793"
          by (simp only: of_int_le_iff)
        then show ?thesis using True by (simp add: v')
      next
        case False
        then have "of_int 7205759403792794 - 1 / 2 < y" by (simp add: y_def)
        then have "7205759403792794 \<le> round_half_even y" by (rule round_half_even_ge_half)
        then have "(of_int 7205759403792794 :: rat) \<le> of_int (round_half_even y)"
          by (simp only: of_int_le_iff)
        then show ?thesis using False by (simp add: v')
      qed
    qed
  qed
  then show ?thesis
    using r(1) by (simp add: literal_0_8 x_def)
qed

text \<open>The two tests of \<open>handleImageLoad\<close>, for every image whose height is not zero.\<close>

lemma classifier_tests:
  assumes "naturalHeight img \<noteq> (0 :: 32 word)"
  defines "ratio \<equiv> js_divide (unat (naturalWidth img)) (unat (naturalHeight img))"
  shows "js_less (round_double (17 / 10)) ratio \<longleftrightarrow> 17 / 10 < exact_ratio img"
    and "js_less ratio (round_double (4 / 5)) \<longleftrightarrow> exact_ratio img < 4 / 5"
proof -
  define w where "w = unat (naturalWidth img)"
  define h where "h = unat (naturalHeight img)"
  have h: "0 < h" "h < 2 ^ 32"
    using assms(1) unsigned_less [of "naturalHeight img", where 'a = nat]
    by (simp_all add: h_def unat_gt_0)
  have w: "w < 2 ^ 32"
    using unsigned_less [of "naturalWidth img", where 'a = nat] by (simp add: w_def)
  have ratio: "ratio = round_double (of_nat w / of_nat h)"
    using h by (simp add: ratio_def js_divide_def w_def h_def)
  have r: "exact_ratio img = of_nat w / of_nat h"
    by (simp add: exact_ratio_def w_def h_def)
  show "js_less (round_double (17 / 10)) ratio \<longleftrightarrow> 17 / 10 < exact_ratio img"
  proof (cases "w = 0")
    case True
    then show ?thesis by (simp add: ratio r round_double_0 literal_1_7)
  next
    case False
    then show ?thesis using wide_iff [of w h] w h by (simp add: ratio r)
  qed
  show "js_less ratio (round_double (4 / 5)) \<longleftrightarrow> exact_ratio img < 4 / 5"
  proof (cases "w = 0")
    case True
    then show ?thesis by (simp add: ratio r round_double_0 literal_0_8)
  next
    case False
    then show ?thesis using tall_iff [of w h] w h by (simp add: ratio r)
  qed
qed

text \<open>
  Claim C1. For every loaded image whose natural height is not zero, with \<open>r\<close> the exact
  ratio of natural width to natural height: the classifier selects the wide bucket
  (16:9) exactly when \<open>r > 1.7\<close>, the tall bucket (3:4) exactly when \<open>r < 0.8\<close>, and the
  standard bucket (4:3) exactly when \<open>0.8 \<le> r \<le> 1.7\<close>; the boundary values \<open>0.8\<close> and
  \<open>1.7\<close> go to the standard bucket. The code computes with doubles; the statement is
  about the exact ratio.
\<close>

theorem C1_aspect_buckets:
  assumes "naturalHeight img \<noteq> 0"
  shows "(handleImageLoad img = Aspect_16_9 \<longleftrightarrow> 17 / 10 < exact_ratio img)
       \<and> (handleImageLoad img = Aspect_3_4 \<longleftrightarrow> exact_ratio img < 4 / 5)
       \<and> (handleImageLoad img = Aspect_4_3
            \<longleftrightarrow> 4 / 5 \<le> exact_ratio img \<and> exact_ratio img \<le> 17 / 10)
       \<and> (exact_ratio img = 4 / 5 \<longrightarrow> handleImageLoad img = Aspect_4_3)
       \<and> (exact_ratio img = 17 / 10 \<longrightarrow> handleImageLoad img = Aspect_4_3)"
  using classifier_tests [OF assms]
  by (auto simp add: handleImageLoad_def Let_def)

theorem C1_aspect_buckets_witness:
  "naturalHeight \<lparr>naturalWidth = 1700, naturalHeight = 1000\<rparr> \<noteq> 0
   \<and> handleImageLoad \<lparr>naturalWidth = 1700, naturalHeight = 1000\<rparr> = Aspect_4_3
   \<and> naturalHeight \<lparr>naturalWidth = 1920, naturalHeight = 1080\<rparr> \<noteq> 0
   \<and> handleImageLoad \<lparr>naturalWidth = 1920, naturalHeight = 1080\<rparr> = Aspect_16_9
   \<and> naturalHeight \<lparr>naturalWidth = 600, naturalHeight = 800\<rparr> \<noteq> 0
   \<and> handleImageLoad \<lparr>naturalWidth = 600, naturalHeight = 800\<rparr> = Aspect_3_4"
  using C1_aspect_buckets [of "\<lparr>naturalWidth = 1700, naturalHeight = 1000\<rparr>"]
    C1_aspect_buckets [of "\<lparr>naturalWidth = 1920, naturalHeight = 1080\<rparr>"]
    C1_aspect_buckets [of "\<lparr>naturalWidth = 600, naturalHeight = 800\<rparr>"]
  by (simp add: exact_ratio_def)

text \<open>
  Claim C2, as stated, fails: an image of height zero and positive width has the ratio
  \<open>Infinity\<close>, which is greater than \<open>1.7\<close>, and gets the wide bucket; an image of width
  zero and positive height has the ratio \<open>0\<close> and gets the tall bucket.
\<close>

theorem C2_malformed_counterexample:
  "naturalHeight \<lparr>naturalWidth = 100, naturalHeight = 0\<rparr> = 0
   \<and> handleImageLoad \<lparr>naturalWidth = 100, naturalHeight = 0\<rparr> = Aspect_16_9
   \<and> handleImageLoad \<lparr>naturalWidth = 100, naturalHeight = 0\<rparr> \<noteq> Aspect_4_3
   \<and> naturalWidth \<lparr>naturalWidth = 0, naturalHeight = 100\<rparr> = 0
   \<and> handleImageLoad \<lparr>naturalWidth = 0, naturalHeight = 100\<rparr> = Aspect_3_4
   \<and> handleImageLoad \<lparr>naturalWidth = 0, naturalHeight = 100\<rparr> \<noteq> Aspect_4_3"
  by (simp add: handleImageLoad_def js_divide_def round_double_0 literal_1_7 literal_0_8)

text \<open>
  Claim C2, amended. The classifier has no error path: it is a total function of the two
  natural dimensions, which are unsigned and so never negative. Of the malformed
  dimensions only width and height both zero (the ratio is \<open>NaN\<close>) get the default
  standard bucket; height zero with a positive width (the ratio is \<open>Infinity\<close>) gets the
  wide bucket, and width zero with a positive height (the ratio is \<open>0\<close>) the tall one.
\<close>

theorem C2_malformed_dimensions:
  "(naturalWidth img = 0 \<and> naturalHeight img = 0 \<longrightarrow> handleImageLoad img = Aspect_4_3)
   \<and> (naturalWidth img \<noteq> 0 \<and> naturalHeight img = 0 \<longrightarrow> handleImageLoad img = Aspect_16_9)
   \<and> (naturalWidth img = 0 \<and> naturalHeight img \<noteq> 0 \<longrightarrow> handleImageLoad img = Aspect_3_4)"
  by (simp add: handleImageLoad_def js_divide_def round_double_0 literal_1_7 literal_0_8
      unat_eq_zero)

theorem C2_malformed_dimensions_witness:
  "handleImageLoad \<lparr>naturalWidth = 0, naturalHeight = 0\<rparr> = Aspect_4_3
   \<and> handleImageLoad \<lparr>naturalWidth = 3, naturalHeight = 0\<rparr> = Aspect_16_9
   \<and> handleImageLoad \<lparr>naturalWidth = 0, naturalHeight = 7\<rparr> = Aspect_3_4"
  using C2_malformed_dimensions [of "\<lparr>naturalWidth = 0, naturalHeight = 0\<rparr>"]
    C2_malformed_dimensions [of "\<lparr>naturalWidth = 3, naturalHeight = 0\<rparr>"]
    C2_malformed_dimensions [of "\<lparr>naturalWidth = 0, naturalHeight = 7\<rparr>"]
  by simp

section \<open>Properties of the public programme page\<close>

lemma rendered_view_after_fetch:
  "rendered (musikkfest_view (fetchMusikkfestEvents \<lparr>data = Some d, error = None\<rparr> s))
     = grid_cards d"
  by (cases d) (simp_all add: musikkfest_view_def fetchMusikkfestEvents_def grid_cards_def)

text \<open>
  Claim C5. After the public page has fetched the list \<open>d\<close>, a fetched record is shown in
  the grid exactly when its title differs from \<open>Grendedag\<close>: a record with that title is
  never shown, whatever its other fields are, and every other fetched record is shown.
  The cards keep the order of the fetched list.
\<close>

theorem C5_grendedag_excluded:
  "set (rendered (musikkfest_view (fetchMusikkfestEvents \<lparr>data = Some d, error = None\<rparr> s)))
     = {e \<in> set d. title e \<noteq> ''Grendedag''}
   \<and> rendered (musikkfest_view (fetchMusikkfestEvents \<lparr>data = Some d, error = None\<rparr> s))
     = filter (\<lambda>e. title e \<noteq> ''Grendedag'') d"
  using rendered_view_after_fetch [of d s] by (simp add: grid_cards_def)

section \<open>Properties of the event lists\<close>

lemma select_events_sorted:
  "sorted (map event_date (case data (select_events tag failure b) of Some d \<Rightarrow> d | None \<Rightarrow> []))"
  by (simp add: select_events_def split: option.split)












section \<open>Properties of the admin handlers\<close>

text \<open>
  Claim C7. Deleting an event and deleting a contact message both begin with the
  confirmation question, whatever is answered. When the answer is no, the handler ends
  there: the question is its only effect (no request is issued), and the tables of the
  backend and the state of the component are the ones it started with.
\<close>

theorem C7_declined_delete_changes_nothing:
  "handleDelete i False failure refetch_failure b s = ([Confirm confirm_delete_event], b, s)
   \<and> deleteMessage j False failure' refetch_failure' b' s' = ([Confirm confirm_delete_message], b', s')
   \<and> hd (fst (handleDelete i answer failure refetch_failure b s)) = Confirm confirm_delete_event
   \<and> hd (fst (deleteMessage j answer' failure' refetch_failure' b' s'))
       = Confirm confirm_delete_message"
  by (simp add: handleDelete_def deleteMessage_def Let_def split: prod.split option.split)

lemma send_failed: "send rq (Some e) b = (b, Some e)"
  by (simp add: send_def)

lemma send_events_table:
  "events_table (fst (send (Update_message_status i st) failure b)) = events_table b"
  "events_table (fst (send (Update_message_notes i n) failure b)) = events_table b"
  by (cases failure; cases n; simp add: send_def)+

lemma send_status_frame:
  "map (\<lambda>m. m\<lparr>msg_status := New\<rparr>) (messages_table (fst (send (Update_message_status i st) failure b)))
     = map (\<lambda>m. m\<lparr>msg_status := New\<rparr>) (messages_table b)"
  by (cases failure) (simp_all add: send_def comp_def)

lemma send_notes_frame:
  "map (\<lambda>m. m\<lparr>admin_notes := None\<rparr>)
       (messages_table (fst (send (Update_message_notes i n) failure b)))
     = map (\<lambda>m. m\<lparr>admin_notes := None\<rparr>) (messages_table b)"
  by (cases failure; cases n) (simp_all add: send_def comp_def)

lemma updateStatus_backend:
  "fst (snd (updateStatus i st failure refetch_failure b s))
     = fst (send (Update_message_status i st) failure b)"
  by (simp add: updateStatus_def Let_def split: prod.split option.split)

lemma updateAdminNotes_backend:
  "fst (snd (updateAdminNotes i failure refetch_failure b s))
     = fst (send (Update_message_notes i (editingNotes s i)) failure b)"
  by (simp add: updateAdminNotes_def Let_def split: prod.split option.split)

text \<open>
  Claim C8. Updating the status of a contact message and saving its notes are two
  writes, each a request of its own with a payload of one column. After
  \<open>updateStatus\<close>, whether the request fails or not, every stored message is what it was
  except possibly for its status: the admin notes and all other fields are unchanged.
  After \<open>updateAdminNotes\<close> every stored message is what it was except possibly for its
  admin notes: the status and all other fields are unchanged. Neither touches the
  events table. A status update that the backend accepts stores the new status on the
  message with the given id and on no other; a notes save that the backend accepts
  stores the text the buffer holds for that id as the admin notes of that message and of
  no other. A write that fails stores nothing.
\<close>

theorem C8_status_and_notes_written_separately:
  "hd (fst (updateStatus i st failure refetch_failure b s)) = Request (Update_message_status i st)
   \<and> map (\<lambda>m. m\<lparr>msg_status := New\<rparr>)
         (messages_table (fst (snd (updateStatus i st failure refetch_failure b s))))
       = map (\<lambda>m. m\<lparr>msg_status := New\<rparr>) (messages_table b)
   \<and> map admin_notes (messages_table (fst (snd (updateStatus i st failure refetch_failure b s))))
       = map admin_notes (messages_table b)
   \<and> events_table (fst (snd (updateStatus i st failure refetch_failure b s))) = events_table b
   \<and> hd (fst (updateAdminNotes i failure refetch_failure b s))
       = Request (Update_message_notes i (editingNotes s i))
   \<and> map (\<lambda>m. m\<lparr>admin_notes := None\<rparr>)
         (messages_table (fst (snd (updateAdminNotes i failure refetch_failure b s))))
       = map (\<lambda>m. m\<lparr>admin_notes := None\<rparr>) (messages_table b)
   \<and> map msg_status (messages_table (fst (snd (updateAdminNotes i failure refetch_failure b s))))
       = map msg_status (messages_table b)
   \<and> events_table (fst (snd (updateAdminNotes i failure refetch_failure b s))) = events_table b
   \<and> messages_table (fst (snd (updateStatus i st None refetch_failure b s)))
       = map (\<lambda>m. if msg_id m = i then m\<lparr>msg_status := st\<rparr> else m) (messages_table b)
   \<and> (editingNotes s i = Some t \<longrightarrow>
        messages_table (fst (snd (updateAdminNotes i None refetch_failure b s)))
          = map (\<lambda>m. if msg_id m = i then m\<lparr>admin_notes := Some t\<rparr> else m) (messages_table b))
   \<and> messages_table (fst (snd (updateAdminNotes i None refetch_failure b (editNotes i t s))))
       = map (\<lambda>m. if msg_id m = i then m\<lparr>admin_notes := Some t\<rparr> else m) (messages_table b)
   \<and> fst (snd (updateStatus i st (Some e) refetch_failure b s)) = b
   \<and> fst (snd (updateAdminNotes i (Some e) refetch_failure b s)) = b"
proof -
  have 1: "hd (fst (updateStatus i st failure refetch_failure b s))
             = Request (Update_message_status i st)"
    by (simp add: updateStatus_def Let_def split: prod.split option.split)
  have 2: "hd (fst (updateAdminNotes i failure refetch_failure b s))
             = Request (Update_message_notes i (editingNotes s i))"
    by (simp add: updateAdminNotes_def Let_def split: prod.split option.split)
  have 3: "map admin_notes (messages_table (fst (send (Update_message_status i st) failure b)))
             = map admin_notes (messages_table b)"
    using arg_cong [OF send_status_frame [of i st failure b], of "map admin_notes"]
    by (simp add: comp_def)
  have 4: "map msg_status
             (messages_table (fst (send (Update_message_notes i (editingNotes s i)) failure b)))
             = map msg_status (messages_table b)"
    using arg_cong [OF send_notes_frame [of i "editingNotes s i" failure b], of "map msg_status"]
    by (simp add: comp_def)
  have 5: "messages_table (fst (snd (updateStatus i st None refetch_failure b s)))
       = map (\<lambda>m. if msg_id m = i then m\<lparr>msg_status := st\<rparr> else m) (messages_table b)"
    by (simp add: updateStatus_backend send_def)
  have 6: "editingNotes s i = Some t \<longrightarrow>
        messages_table (fst (snd (updateAdminNotes i None refetch_failure b s)))
          = map (\<lambda>m. if msg_id m = i then m\<lparr>admin_notes := Some t\<rparr> else m) (messages_table b)"
    by (simp add: updateAdminNotes_backend send_def)
  have 7: "messages_table (fst (snd (updateAdminNotes i None refetch_failure b (editNotes i t s))))
       = map (\<lambda>m. if msg_id m = i then m\<lparr>admin_notes := Some t\<rparr> else m) (messages_table b)"
    by (simp add: updateAdminNotes_backend send_def editNotes_def)
  have 8: "fst (snd (updateStatus i st (Some e) refetch_failure b s)) = b"
    by (simp add: updateStatus_backend send_failed)
  have 9: "fst (snd (updateAdminNotes i (Some e) refetch_failure b s)) = b"
    by (simp add: updateAdminNotes_backend send_failed)
  have old: "hd (fst (updateStatus i st failure refetch_failure b s)) = Request (Update_message_status i st)
   \<and> map (\<lambda>m. m\<lparr>msg_status := New\<rparr>)
         (messages_table (fst (snd (updateStatus i st failure refetch_failure b s))))
       = map (\<lambda>m. m\<lparr>msg_status := New\<rparr>) (messages_table b)
   \<and> map admin_notes (messages_table (fst (snd (updateStatus i st failure refetch_failure b s))))
       = map admin_notes (messages_table b)
   \<and> events_table (fst (snd (updateStatus i st failure refetch_failure b s))) = events_table b
   \<and> hd (fst (updateAdminNotes i failure refetch_failure b s))
       = Request (Update_message_notes i (editingNotes s i))
   \<and> map (\<lambda>m. m\<lparr>admin_notes := None\<rparr>)
         (messages_table (fst (snd (updateAdminNotes i failure refetch_failure b s))))
       = map (\<lambda>m. m\<lparr>admin_notes := None\<rparr>) (messages_table b)
   \<and> map msg_status (messages_table (fst (snd (updateAdminNotes i failure refetch_failure b s))))
       = map msg_status (messages_table b)
   \<and> events_table (fst (snd (updateAdminNotes i failure refetch_failure b s))) = events_table b"
    by (simp only: updateStatus_backend updateAdminNotes_backend send_status_frame
        send_notes_frame send_events_table 1 2 3 4 simp_thms)
  from old 5 6 7 8 9 show ?thesis by blast
qed

theorem C8_status_and_notes_written_separately_witness:
  "editingNotes (editNotes ''m1'' ''ringt tilbake'' messages_init) ''m1'' = Some ''ringt tilbake''
   \<and> messages_table (fst (snd (updateAdminNotes ''m1'' None None
        \<lparr>events_table = [],
         messages_table =
           [\<lparr>msg_id = ''m1'', name = ''Ola'', email = ''ola@example.no'', message = ''Hei'',
             created_at = 10, admin_notes = None, msg_status = New\<rparr>,
            \<lparr>msg_id = ''m2'', name = ''Kari'', email = ''kari@example.no'', message = ''Hallo'',
             created_at = 20, admin_notes = Some ''venter'', msg_status = In_progress\<rparr>]\<rparr>
        (editNotes ''m1'' ''ringt tilbake'' messages_init))))
     = [\<lparr>msg_id = ''m1'', name = ''Ola'', email = ''ola@example.no'', message = ''Hei'',
         created_at = 10, admin_notes = Some ''ringt tilbake'', msg_status = New\<rparr>,
        \<lparr>msg_id = ''m2'', name = ''Kari'', email = ''kari@example.no'', message = ''Hallo'',
         created_at = 20, admin_notes = Some ''venter'', msg_status = In_progress\<rparr>]
   \<and> messages_table (fst (snd (updateStatus ''m1'' Completed None None
        \<lparr>events_table = [],
         messages_table =
           [\<lparr>msg_id = ''m1'', name = ''Ola'', email = ''ola@example.no'', message = ''Hei'',
             created_at = 10, admin_notes = None, msg_status = New\<rparr>,
            \<lparr>msg_id = ''m2'', name = ''Kari'', email = ''kari@example.no'', message = ''Hallo'',
             created_at = 20, admin_notes = Some ''venter'', msg_status = In_progress\<rparr>]\<rparr>
        (editNotes ''m1'' ''ringt tilbake'' messages_init))))
     = [\<lparr>msg_id = ''m1'', name = ''Ola'', email = ''ola@example.no'', message = ''Hei'',
         created_at = 10, admin_notes = None, msg_status = Completed\<rparr>,
        \<lparr>msg_id = ''m2'', name = ''Kari'', email = ''kari@example.no'', message = ''Hallo'',
         created_at = 20, admin_notes = Some ''venter'', msg_status = In_progress\<rparr>]"
  using C8_status_and_notes_written_separately
    [of "''m1''" Completed None None
        "\<lparr>events_table = [],
          messages_table =
            [\<lparr>msg_id = ''m1'', name = ''Ola'', email = ''ola@example.no'', message = ''Hei'',
              created_at = 10, admin_notes = None, msg_status = New\<rparr>,
             \<lparr>msg_id = ''m2'', name = ''Kari'', email = ''kari@example.no'', message = ''Hallo'',
              created_at = 20, admin_notes = Some ''venter'', msg_status = In_progress\<rparr>]\<rparr>"
        "editNotes ''m1'' ''ringt tilbake'' messages_init" "''ringt tilbake''"]
  by (simp add: editNotes_def)

text \<open>
  Claim C9. When the write of an admin action fails (a status change, a save or a
  confirmed delete of an event; a status change, a notes save or a confirmed delete of a
  message), the handler sends that one request and no other, logs the error, shows an
  error notification, and returns the component state and the tables unchanged, so the
  lists stay as they were. A save that the backend refuses because the form holds no date
  ends the same way. A failed fetch shows the error notification, ends the loading state
  and leaves the list as it was, which is the empty list for the first fetch; the public
  page's failed first fetch leaves its list empty too. Every handler returns a state:
  no failure stops the component.
\<close>

theorem C9_failed_requests_keep_state:
  "handleStatusChange i st (Some e) b s
     = ([Request (Update_event_status i st), Console_error ''Error updating event status:'',
         Toast_error ''Kunne ikke oppdatere status''], b, s)
   \<and> handleSubmit n (Some e) g b s
     = ([Prevent_default,
         Request (case editingEvent s of
                    Some ev \<Rightarrow> Update_event (ev_id ev) (formData s)
                  | None \<Rightarrow> Insert_event n (formData s)),
         Console_error ''Error saving event:'', Toast_error ''Kunne ikke lagre arrangement''],
        b, s)
   \<and> (form_event_date (formData s) = None \<longrightarrow>
        snd (handleSubmit n None g b s) = (b, s)
        \<and> last (fst (handleSubmit n None g b s)) = Toast_error ''Kunne ikke lagre arrangement'')
   \<and> handleDelete i True (Some e) g b s
     = ([Confirm confirm_delete_event, Request (Delete_event i),
         Console_error ''Error deleting event:'', Toast_error ''Kunne ikke slette arrangement''],
        b, s)
   \<and> updateStatus j mst (Some e) g c t
     = ([Request (Update_message_status j mst), Console_error ''Error updating status:'',
         Toast_error ''Could not update status''], c, t)
   \<and> updateAdminNotes j (Some e) g c t
     = ([Request (Update_message_notes j (editingNotes t j)),
         Console_error ''Error updating notes:'', Toast_error ''Could not update notes''], c, t)
   \<and> deleteMessage j True (Some e) g c t
     = ([Confirm confirm_delete_message, Request (Delete_message j),
         Console_error ''Error deleting message:'', Toast_error ''Kunne ikke slette melding''],
        c, t)
   \<and> fetchEvents (Some e) b s
     = ([Request (Select_events None), Console_error ''Error fetching events:'',
         Toast_error ''Kunne ikke hente arrangementer''], s\<lparr>em_loading := False\<rparr>)
   \<and> em_events (snd (fetchEvents (Some e) b manager_init)) = []
   \<and> fetchMessages (Some e) c t
     = ([Request Select_messages, Console_error ''Error fetching messages:'',
         Toast_error ''Could not fetch messages''], t\<lparr>cm_loading := False\<rparr>)
   \<and> messages (snd (fetchMessages (Some e) c messages_init)) = []
   \<and> events (musikkfest_mount (Some e) b) = []
   \<and> loading (musikkfest_mount (Some e) b) = False"
proof -
  have 1: "handleStatusChange i st (Some e) b s
     = ([Request (Update_event_status i st), Console_error ''Error updating event status:'',
         Toast_error ''Kunne ikke oppdatere status''], b, s)"
    by (simp add: handleStatusChange_def send_failed)
  have 2: "handleSubmit n (Some e) g b s
     = ([Prevent_default,
         Request (case editingEvent s of
                    Some ev \<Rightarrow> Update_event (ev_id ev) (formData s)
                  | None \<Rightarrow> Insert_event n (formData s)),
         Console_error ''Error saving event:'', Toast_error ''Kunne ikke lagre arrangement''],
        b, s)"
    by (simp add: handleSubmit_def send_failed Let_def)
  have 3: "form_event_date (formData s) = None \<longrightarrow>
        snd (handleSubmit n None g b s) = (b, s)
        \<and> last (fst (handleSubmit n None g b s)) = Toast_error ''Kunne ikke lagre arrangement''"
    by (cases "editingEvent s") (simp_all add: handleSubmit_def send_def Let_def)
  have 4: "handleDelete i True (Some e) g b s
     = ([Confirm confirm_delete_event, Request (Delete_event i),
         Console_error ''Error deleting event:'', Toast_error ''Kunne ikke slette arrangement''],
        b, s)"
    by (simp add: handleDelete_def send_failed)
  have 5: "updateStatus j mst (Some e) g c t
     = ([Request (Update_message_status j mst), Console_error ''Error updating status:'',
         Toast_error ''Could not update status''], c, t)"
    by (simp add: updateStatus_def send_failed)
  have 6: "updateAdminNotes j (Some e) g c t
     = ([Request (Update_message_notes j (editingNotes t j)),
         Console_error ''Error updating notes:'', Toast_error ''Could not update notes''], c, t)"
    by (simp add: updateAdminNotes_def send_failed Let_def)
  have 7: "deleteMessage j True (Some e) g c t
     = ([Confirm confirm_delete_message, Request (Delete_message j),
         Console_error ''Error deleting message:'', Toast_error ''Kunne ikke slette melding''],
        c, t)"
    by (simp add: deleteMessage_def send_failed)
  have 8: "fetchEvents (Some e) b s
     = ([Request (Select_events None), Console_error ''Error fetching events:'',
         Toast_error ''Kunne ikke hente arrangementer''], s\<lparr>em_loading := False\<rparr>)" for s
    by (simp add: fetchEvents_def select_events_def)
  have 9: "fetchMessages (Some e) c t
     = ([Request Select_messages, Console_error ''Error fetching messages:'',
         Toast_error ''Could not fetch messages''], t\<lparr>cm_loading := False\<rparr>)" for t
    by (simp add: fetchMessages_def select_messages_def)
  have 10: "events (musikkfest_mount (Some e) b) = []" "loading (musikkfest_mount (Some e) b) = False"
    by (simp_all add: musikkfest_mount_def fetchMusikkfestEvents_def select_events_def
        musikkfest_init_def)
  have 11: "em_events (snd (fetchEvents (Some e) b manager_init)) = []"
    by (simp add: 8 manager_init_def)
  have 12: "messages (snd (fetchMessages (Some e) c messages_init)) = []"
    by (simp add: 9 messages_init_def)
  from 1 2 3 4 5 6 7 8 9 10 11 12 show ?thesis by (simp only: simp_thms)
qed

theorem C9_failed_requests_keep_state_witness:
  "form_event_date (formData manager_init) = None
   \<and> snd (handleSubmit ''id-1'' None None \<lparr>events_table = [], messages_table = []\<rparr> manager_init)
       = (\<lparr>events_table = [], messages_table = []\<rparr>, manager_init)
   \<and> handleStatusChange ''id-1'' Published (Some ''timeout'')
        \<lparr>events_table = [], messages_table = []\<rparr> manager_init
       = ([Request (Update_event_status ''id-1'' Published),
           Console_error ''Error updating event status:'',
           Toast_error ''Kunne ikke oppdatere status''],
          \<lparr>events_table = [], messages_table = []\<rparr>, manager_init)"
  using C9_failed_requests_keep_state [of "''id-1''" Published "''timeout''"
      "\<lparr>events_table = [], messages_table = []\<rparr>" manager_init "''id-1''" None]
  by (simp add: manager_init_def empty_form_def)

section \<open>Properties of the notes buffer\<close>

















section \<open>Properties of the membership form\<close>

text \<open>
  Claim C3, as stated, fails: when the promise of the store action rejects, the handler
  ends at the \<open>await\<close>. Here a valid form is submitted and the store action rejects: the
  browser is not navigated, the fields are not reset and the banner is not set.
\<close>

theorem C3_rejected_action_counterexample:
  "fst (submit_click (\<lambda>fd. Rejected ''insert failed'' :: unit settled)
     \<lparr>mf_formData = \<lparr>m_name = ''Kari Nordmann'', m_email = ''kari@example.no'', phone = [],
                      m_location = ''Hovden'', ageGroup = ''26-35'', motivation = []\<rparr>,
      submitted = False, submitting = False, location_href = ''https://hovden.example/medlem''\<rparr>)
     = [Prevent_default,
        Store_action \<lparr>m_name = ''Kari Nordmann'', m_email = ''kari@example.no'', phone = [],
                      m_location = ''Hovden'', ageGroup = ''26-35'', motivation = []\<rparr>,
        Unhandled_rejection ''insert failed'']
   \<and> snd (submit_click (\<lambda>fd. Rejected ''insert failed'' :: unit settled)
     \<lparr>mf_formData = \<lparr>m_name = ''Kari Nordmann'', m_email = ''kari@example.no'', phone = [],
                      m_location = ''Hovden'', ageGroup = ''26-35'', motivation = []\<rparr>,
      submitted = False, submitting = False, location_href = ''https://hovden.example/medlem''\<rparr>)
     = \<lparr>mf_formData = \<lparr>m_name = ''Kari Nordmann'', m_email = ''kari@example.no'', phone = [],
                        m_location = ''Hovden'', ageGroup = ''26-35'', motivation = []\<rparr>,
        submitted = False, submitting = True, location_href = ''https://hovden.example/medlem''\<rparr>"
  by code_simp

text \<open>
  Claim C3, amended. The submit handler calls the store action with the form data and
  awaits it. Whenever that promise is fulfilled, with whatever value (the value is never
  looked at, so also when the action reports a failure through it), the handler resets
  the form fields to empty, sets the success banner and navigates to the fixed checkout
  address, in that order after the call. When the promise is rejected, the handler ends
  at the await: the fields, the banner and the address stay as they were.
\<close>

theorem C3_navigation_after_fulfilled_action:
  "(submitMembershipForm (mf_formData s) = Fulfilled r \<longrightarrow>
      handleSubmit_membership submitMembershipForm s
        = ([Prevent_default, Store_action (mf_formData s), Navigate checkout_url],
           s\<lparr>submitting := True, mf_formData := empty_membership_form, submitted := True,
             location_href := checkout_url\<rparr>))
   \<and> (submitMembershipForm (mf_formData s) = Rejected e \<longrightarrow>
      handleSubmit_membership submitMembershipForm s
        = ([Prevent_default, Store_action (mf_formData s), Unhandled_rejection e],
           s\<lparr>submitting := True\<rparr>))"
  by (simp add: handleSubmit_membership_def Let_def)

theorem C3_navigation_after_fulfilled_action_witness:
  "location_href (snd (handleSubmit_membership (\<lambda>fd. Fulfilled False)
      \<lparr>mf_formData = \<lparr>m_name = ''Kari Nordmann'', m_email = ''kari@example.no'', phone = [],
                       m_location = ''Hovden'', ageGroup = ''26-35'', motivation = []\<rparr>,
       submitted = False, submitting = False,
       location_href = ''https://hovden.example/medlem''\<rparr>)) = checkout_url
   \<and> location_href (snd (handleSubmit_membership (\<lambda>fd. Rejected ''insert failed'' :: bool settled)
      \<lparr>mf_formData = \<lparr>m_name = ''Kari Nordmann'', m_email = ''kari@example.no'', phone = [],
                       m_location = ''Hovden'', ageGroup = ''26-35'', motivation = []\<rparr>,
       submitted = False, submitting = False,
       location_href = ''https://hovden.example/medlem''\<rparr>)) = ''https://hovden.example/medlem''"
  using C3_navigation_after_fulfilled_action
    [of "\<lambda>fd. Fulfilled False"
        "\<lparr>mf_formData = \<lparr>m_name = ''Kari Nordmann'', m_email = ''kari@example.no'', phone = [],
                         m_location = ''Hovden'', ageGroup = ''26-35'', motivation = []\<rparr>,
          submitted = False, submitting = False,
          location_href = ''https://hovden.example/medlem''\<rparr>" False]
    C3_navigation_after_fulfilled_action
    [of "\<lambda>fd. Rejected ''insert failed'' :: bool settled"
        "\<lparr>mf_formData = \<lparr>m_name = ''Kari Nordmann'', m_email = ''kari@example.no'', phone = [],
                         m_location = ''Hovden'', ageGroup = ''26-35'', motivation = []\<rparr>,
          submitted = False, submitting = False,
          location_href = ''https://hovden.example/medlem''\<rparr>" _ "''insert failed''"]
  by simp

lemma checkValidity_form:
  "checkValidity (form_controls fd)
     \<longleftrightarrow> m_name fd \<noteq> [] \<and> m_email fd \<noteq> [] \<and> valid_email (m_email fd)
          \<and> m_location fd \<noteq> [] \<and> ageGroup fd \<noteq> []"
  by (auto simp add: checkValidity_def form_controls_def valueMissing_def typeMismatch_def)

lemma handleSubmit_membership_calls_store:
  "Store_action (mf_formData s) \<in> set (fst (handleSubmit_membership act s))"
  by (cases "act (mf_formData s)") (simp_all add: handleSubmit_membership_def Let_def)

lemma valid_email_example: "valid_email ''kari@example.no''"
  by code_simp

text \<open>
  Claim C4, as stated, fails in its second half: with all four required fields non-empty
  the browser still refuses to submit when the e-mail field does not hold an e-mail
  address (the input has \<open>type="email"\<close>). Here the address lacks the \<open>@\<close>: the submit
  handler is not reached and the state is unchanged.
\<close>

theorem C4_invalid_email_counterexample:
  "m_name \<lparr>m_name = ''Kari'', m_email = ''kari'', phone = [], m_location = ''Hovden'',
           ageGroup = ''18-25'', motivation = []\<rparr> \<noteq> []
   \<and> m_email \<lparr>m_name = ''Kari'', m_email = ''kari'', phone = [], m_location = ''Hovden'',
           ageGroup = ''18-25'', motivation = []\<rparr> \<noteq> []
   \<and> m_location \<lparr>m_name = ''Kari'', m_email = ''kari'', phone = [], m_location = ''Hovden'',
           ageGroup = ''18-25'', motivation = []\<rparr> \<noteq> []
   \<and> ageGroup \<lparr>m_name = ''Kari'', m_email = ''kari'', phone = [], m_location = ''Hovden'',
           ageGroup = ''18-25'', motivation = []\<rparr> \<noteq> []
   \<and> submit_click (\<lambda>fd. Fulfilled ())
        \<lparr>mf_formData = \<lparr>m_name = ''Kari'', m_email = ''kari'', phone = [],
                         m_location = ''Hovden'', ageGroup = ''18-25'', motivation = []\<rparr>,
         submitted = False, submitting = False,
         location_href = ''https://hovden.example/medlem''\<rparr>
     = ([Report_validity],
        \<lparr>mf_formData = \<lparr>m_name = ''Kari'', m_email = ''kari'', phone = [],
                         m_location = ''Hovden'', ageGroup = ''18-25'', motivation = []\<rparr>,
         submitted = False, submitting = False,
         location_href = ''https://hovden.example/medlem''\<rparr>)"
  by code_simp

text \<open>
  Claim C4, amended. A click on the submit button is rejected (the submit handler is not
  reached, no store action runs and the state is unchanged) whenever any of the required
  fields name, email, location or ageGroup is empty. It is accepted (the submit handler
  runs) exactly when all four are non-empty, the email field holds a valid e-mail
  address and the button is not disabled by a submission in progress, whatever the
  optional fields phone and motivation hold.
\<close>

theorem C4_required_fields_gate_submission:
  "(m_name (mf_formData s) = [] \<or> m_email (mf_formData s) = []
      \<or> m_location (mf_formData s) = [] \<or> ageGroup (mf_formData s) = [] \<longrightarrow>
        snd (submit_click act s) = s
        \<and> set (fst (submit_click act s)) \<subseteq> {Report_validity})
   \<and> (Store_action (mf_formData s) \<in> set (fst (submit_click act s))
        \<longleftrightarrow> \<not> submitting s \<and> m_name (mf_formData s) \<noteq> [] \<and> m_email (mf_formData s) \<noteq> []
             \<and> valid_email (m_email (mf_formData s)) \<and> m_location (mf_formData s) \<noteq> []
             \<and> ageGroup (mf_formData s) \<noteq> [])
   \<and> (\<not> submitting s \<and> m_name (mf_formData s) \<noteq> [] \<and> m_email (mf_formData s) \<noteq> []
        \<and> valid_email (m_email (mf_formData s)) \<and> m_location (mf_formData s) \<noteq> []
        \<and> ageGroup (mf_formData s) \<noteq> [] \<longrightarrow>
          submit_click act (s\<lparr>mf_formData := (mf_formData s)\<lparr>phone := p, motivation := m\<rparr>\<rparr>)
            = handleSubmit_membership act
                (s\<lparr>mf_formData := (mf_formData s)\<lparr>phone := p, motivation := m\<rparr>\<rparr>))"
proof -
  have v: "checkValidity (form_controls ((mf_formData s)\<lparr>phone := p, motivation := m\<rparr>))
             = checkValidity (form_controls (mf_formData s))"
    by (simp add: checkValidity_form)
  show ?thesis
    using handleSubmit_membership_calls_store [of s act]
    by (auto simp add: submit_click_def v checkValidity_form)
qed

theorem C4_required_fields_gate_submission_witness:
  "snd (submit_click (\<lambda>fd. Fulfilled ())
      \<lparr>mf_formData = \<lparr>m_name = ''Kari'', m_email = ''kari@example.no'', phone = [],
                       m_location = [], ageGroup = ''18-25'', motivation = []\<rparr>,
       submitted = False, submitting = False,
       location_href = ''https://hovden.example/medlem''\<rparr>)
     = \<lparr>mf_formData = \<lparr>m_name = ''Kari'', m_email = ''kari@example.no'', phone = [],
                       m_location = [], ageGroup = ''18-25'', motivation = []\<rparr>,
       submitted = False, submitting = False,
       location_href = ''https://hovden.example/medlem''\<rparr>
   \<and> Store_action \<lparr>m_name = ''Kari'', m_email = ''kari@example.no'', phone = [],
                    m_location = ''Hovden'', ageGroup = ''18-25'', motivation = []\<rparr>
       \<in> set (fst (submit_click (\<lambda>fd. Fulfilled ())
            \<lparr>mf_formData = \<lparr>m_name = ''Kari'', m_email = ''kari@example.no'', phone = [],
                             m_location = ''Hovden'', ageGroup = ''18-25'', motivation = []\<rparr>,
             submitted = False, submitting = False,
             location_href = ''https://hovden.example/medlem''\<rparr>))"
proof -
  have a: "snd (submit_click (\<lambda>fd. Fulfilled ())
      \<lparr>mf_formData = \<lparr>m_name = ''Kari'', m_email = ''kari@example.no'', phone = [],
                       m_location = [], ageGroup = ''18-25'', motivation = []\<rparr>,
       submitted = False, submitting = False,
       location_href = ''https://hovden.example/medlem''\<rparr>)
     = \<lparr>mf_formData = \<lparr>m_name = ''Kari'', m_email = ''kari@example.no'', phone = [],
                       m_location = [], ageGroup = ''18-25'', motivation = []\<rparr>,
       submitted = False, submitting = False,
       location_href = ''https://hovden.example/medlem''\<rparr>"
    using C4_required_fields_gate_submission
      [of "\<lparr>mf_formData = \<lparr>m_name = ''Kari'', m_email = ''kari@example.no'', phone = [],
                           m_location = [], ageGroup = ''18-25'', motivation = []\<rparr>,
            submitted = False, submitting = False,
            location_href = ''https://hovden.example/medlem''\<rparr>" "\<lambda>fd. Fulfilled ()",
       THEN conjunct1]
    by simp
  have b: "Store_action \<lparr>m_name = ''Kari'', m_email = ''kari@example.no'', phone = [],
                    m_location = ''Hovden'', ageGroup = ''18-25'', motivation = []\<rparr>
       \<in> set (fst (submit_click (\<lambda>fd. Fulfilled ())
            \<lparr>mf_formData = \<lparr>m_name = ''Kari'', m_email = ''kari@example.no'', phone = [],
                             m_location = ''Hovden'', ageGroup = ''18-25'', motivation = []\<rparr>,
             submitted = False, submitting = False,
             location_href = ''https://hovden.example/medlem''\<rparr>))"
    using C4_required_fields_gate_submission
      [of "\<lparr>mf_formData = \<lparr>m_name = ''Kari'', m_email = ''kari@example.no'', phone = [],
                           m_location = ''Hovden'', ageGroup = ''18-25'', motivation = []\<rparr>,
            submitted = False, submitting = False,
            location_href = ''https://hovden.example/medlem''\<rparr>" "\<lambda>fd. Fulfilled ()",
       THEN conjunct2, THEN conjunct1]
      valid_email_example
    by simp
  from a b show ?thesis by (rule conjI)
qed

end
